theory Spec2Isabelle
  imports Main
begin

section \<open>The data of \<^verbatim>\<open>pytest_inmanta/plugin.py\<close>\<close>

text \<open>
  Python exceptions are values. \<open>AssertionError\<close> is what a failing \<^verbatim>\<open>assert\<close>
  raises (the interpreter is taken to run with assertions enabled), \<open>Exception\<close> is
  what the plugin raises itself, \<open>TypeError\<close> and \<open>AttributeError\<close> are what
  the interpreter raises on \<^verbatim>\<open>x in None\<close> and \<^verbatim>\<open>None.readouterr()\<close>, and
  \<open>Collaborator\<close> stands for whatever an inmanta library call raises.
\<close>

datatype exn =
    AssertionError string
  | Exception string
  | TypeError string
  | AttributeError string
  | KeyError string
  | Collaborator string

text \<open>
  Attribute values of a resource and fact values. Python compares them with \<^verbatim>\<open>!=\<close>;
  on \<^verbatim>\<open>None\<close>, integers (booleans are the integers 0 and 1 there) and strings
  that is structural inequality.
\<close>

datatype pyval = VNone | VInt int | VStr string

text \<open>
  A resource is produced by the inmanta exporter. The plugin uses its
  \<^verbatim>\<open>id.version\<close>, its method \<^verbatim>\<open>is_type\<close> and, through \<^verbatim>\<open>hasattr\<close> and
  \<^verbatim>\<open>getattr\<close>, its attributes; \<open>res_id\<close> is the key under which the exporter
  files it.
\<close>

record resource =
  res_id :: string
  id_version :: int
  is_type :: "string \<Rightarrow> bool"
  attrs :: "string \<rightharpoonup> pyval"

text \<open>\<^verbatim>\<open>const.ResourceState\<close>, an enumeration of the inmanta library.\<close>

datatype resource_state =
  unavailable | skipped | dry | deployed | failed | queued | available | cancelled | undefined

text \<open>
  A log line of a handler context, as the diagnostic dump of \<^verbatim>\<open>deploy_resource\<close>
  reads it: \<^verbatim>\<open>l._data["msg"]\<close> and \<^verbatim>\<open>l._data["kwargs"]\<close>.
\<close>

record log_line =
  msg :: string
  kwargs :: "(string \<times> string) list"

text \<open>
  \<^verbatim>\<open>handler.HandlerContext\<close>: status, logs and the change-set (attribute, current
  value, desired value). A fresh context has no status yet.
\<close>

record handler_context =
  ctx_resource :: resource
  status :: "resource_state option"
  logs :: "log_line list"
  changes :: "(string \<times> pyval \<times> pyval) list"

type_synonym blob_store = "string \<rightharpoonup> string"
type_synonym fact_store = "string \<rightharpoonup> (string \<rightharpoonup> pyval)"

text \<open>A top-level object of a plugin module: a function or anything else.\<close>

datatype pyobj = FunctionObj string | OtherObj string

type_synonym registry = "string \<rightharpoonup> pyobj"

text \<open>
  The fields of \<^verbatim>\<open>class Project\<close>. \<open>types\<close> maps a type name to an opaque
  descriptor, \<open>resources\<close> is the exporter's dictionary in its iteration order,
  \<open>exporter\<close> and \<open>capsys\<close> are opaque handles, \<open>plugins\<close> is what
  \<^verbatim>\<open>_load_plugins\<close> returned (\<open>None\<close> for Python's \<^verbatim>\<open>None\<close>).
\<close>

record project =
  test_project_dir :: string
  p_stdout :: "string option"
  p_stderr :: "string option"
  types :: "(string \<rightharpoonup> nat) option"
  version :: "int option"
  resources :: "(string \<times> resource) list"
  exporter :: "nat option"
  blobs :: blob_store
  facts :: fact_store
  plugins :: "registry option"
  capsys :: "nat option"

section \<open>Blob store and fact store\<close>

text \<open>
  \<^verbatim>\<open>def add_blob(self, key, content, allow_overwrite=True)\<close>: the third argument is
  optional, \<open>None\<close> is the call that leaves it out. The exception is raised before
  the store is written.
\<close>

definition allow_overwrite_default :: bool where
  "allow_overwrite_default = True"

definition key_already_stored :: "string \<Rightarrow> exn" where
  "key_already_stored key = Exception (''Key '' @ key @ '' already stored in blobs'')"

definition add_blob :: "string \<Rightarrow> string \<Rightarrow> bool option \<Rightarrow> project \<Rightarrow> exn option \<times> project" where
  "add_blob key content allow_overwrite p =
     (let allow = (case allow_overwrite of None \<Rightarrow> allow_overwrite_default | Some b \<Rightarrow> b) in
      if key \<in> dom (blobs p) \<and> \<not> allow then (Some (key_already_stored key), p)
      else (None, p\<lparr>blobs := (blobs p)(key \<mapsto> content)\<rparr>))"

definition stat_blob :: "string \<Rightarrow> project \<Rightarrow> bool" where
  "stat_blob key p = (key \<in> dom (blobs p))"

definition get_blob :: "string \<Rightarrow> project \<Rightarrow> exn + string" where
  "get_blob key p = (case blobs p key of None \<Rightarrow> Inl (KeyError key) | Some c \<Rightarrow> Inr c)"

text \<open>
  \<^verbatim>\<open>self._facts\<close> is a \<^verbatim>\<open>defaultdict(dict)\<close>: reading a missing resource id
  yields a new empty dictionary, which \<^verbatim>\<open>add_fact\<close> then fills.
\<close>

definition add_fact :: "string \<Rightarrow> string \<Rightarrow> pyval \<Rightarrow> project \<Rightarrow> project" where
  "add_fact resource_id name val p =
     (let d = (case facts p resource_id of None \<Rightarrow> Map.empty | Some m \<Rightarrow> m) in
      p\<lparr>facts := (facts p)(resource_id \<mapsto> d(name \<mapsto> val))\<rparr>)"

section \<open>Collaborators\<close>

text \<open>
  What a handler run does, as far as the plugin can see it: the calls it made to
  \<^verbatim>\<open>upload_file\<close> (which the plugin wires to \<^verbatim>\<open>add_blob\<close>), the context as
  it left it, and the exception it raised, if any.
\<close>

record handler_run =
  run_uploads :: "(string \<times> string) list"
  run_ctx :: handler_context
  run_raised :: "exn option"

text \<open>What \<^verbatim>\<open>exporter.run\<close> returns, with the exporter's \<^verbatim>\<open>_file_store\<close>.\<close>

record exported =
  ex_version :: int
  ex_resources :: "(string \<times> resource) list"
  ex_file_store :: "(string \<times> string) list"
  ex_handle :: nat

text \<open>
  The inmanta library and pytest are outside the repository. Their behaviour is a
  parameter of every operation that calls them: each field is one call, and a call that
  can raise returns the exception as a value. A provider (a resource handler) is an
  opaque handle; \<^verbatim>\<open>get_provider\<close> sees the URI of the mock agent it is given.
\<close>

record collab =
  load_config :: "exn option"
  open_version :: "int \<Rightarrow> exn option"
  get_provider :: "string \<Rightarrow> resource \<Rightarrow> exn + nat"
  set_cache :: "nat \<Rightarrow> exn option"
  execute :: "nat \<Rightarrow> handler_context \<Rightarrow> resource \<Rightarrow> bool \<Rightarrow> blob_store \<Rightarrow> handler_run"
  json_encode :: "log_line list \<Rightarrow> exn option"
  do_compile :: "string \<Rightarrow> fact_store \<Rightarrow> exn + (string \<rightharpoonup> nat) \<times> nat"
  exporter_run :: "(string \<rightharpoonup> nat) \<Rightarrow> nat \<Rightarrow> exn + exported"
  readouterr :: "string \<Rightarrow> string \<times> string"

text \<open>
  The calls an operation makes to its collaborators and to \<^verbatim>\<open>print\<close>, in order.
  They are how "no deployment is attempted" and "the cache version is never closed" are
  observed.
\<close>

datatype print_arg =
    PStr string
  | PStrs "string list"
  | PChanges "(string \<times> pyval \<times> pyval) list"

datatype event =
    OpenVersion int
  | CloseVersion int
  | GetProvider string resource
  | SetCache nat
  | Execute nat resource bool
  | JsonEncode "log_line list"
  | Print "print_arg list"

section \<open>Project.init\<close>

text \<open>
  \<^verbatim>\<open>init\<close> assigns seven fields and then reloads the configuration; an exception of
  \<^verbatim>\<open>load_config\<close> leaves the assignments in place.
\<close>

definition init :: "collab \<Rightarrow> nat \<Rightarrow> project \<Rightarrow> exn option \<times> project" where
  "init E cs p =
     (load_config E,
      p\<lparr>capsys := Some cs, types := None, version := None, resources := [],
        exporter := None, blobs := Map.empty, facts := Map.empty\<rparr>)"

section \<open>Project.get\_handler\<close>

text \<open>
  How a block of statements ends: it runs off its end, it executes \<^verbatim>\<open>return\<close>, or
  it raises.
\<close>

datatype 'a completion = Normal | Return 'a | Raise exn

definition mock_agent_uri :: "bool \<Rightarrow> string" where
  "mock_agent_uri run_as_root = (if run_as_root then ''ssh://root@localhost'' else ''local:'')"

text \<open>
  The body of the \<^verbatim>\<open>try\<close>: resolve the provider, give it the cache, wire the four
  callbacks (plain attribute assignments), \<^verbatim>\<open>return p\<close>.
\<close>

definition get_handler_try :: "collab \<Rightarrow> string \<Rightarrow> resource \<Rightarrow> nat completion \<times> event list" where
  "get_handler_try E uri r =
     (case get_provider E uri r of
        Inl e \<Rightarrow> (Raise e, [GetProvider uri r])
      | Inr p \<Rightarrow>
          (case set_cache E p of
             Some e \<Rightarrow> (Raise e, [GetProvider uri r, SetCache p])
           | None \<Rightarrow> (Return p, [GetProvider uri r, SetCache p])))"

text \<open>\<^verbatim>\<open>except Exception as e: raise e\<close> turns a raise into the same raise.\<close>

definition except_reraise :: "'a completion \<Rightarrow> 'a completion" where
  "except_reraise c = (case c of Raise e \<Rightarrow> Raise e | Return v \<Rightarrow> Return v | Normal \<Rightarrow> Normal)"

text \<open>
  \<^verbatim>\<open>get_handler\<close>: the statement after the \<^verbatim>\<open>try\<close>, \<^verbatim>\<open>c.close_version(...)\<close>,
  runs when the \<^verbatim>\<open>try\<close> statement completes normally, and the function then
  returns Python's \<^verbatim>\<open>None\<close> (\<open>Inr None\<close>).
\<close>

definition get_handler :: "collab \<Rightarrow> resource \<Rightarrow> bool \<Rightarrow> (exn + nat option) \<times> event list" where
  "get_handler E r run_as_root =
     (let uri = mock_agent_uri run_as_root in
      case open_version E (id_version r) of
        Some e \<Rightarrow> (Inl e, [OpenVersion (id_version r)])
      | None \<Rightarrow>
          (case get_handler_try E uri r of (c, evs) \<Rightarrow>
             (case except_reraise c of
                Return p \<Rightarrow> (Inr (Some p), OpenVersion (id_version r) # evs)
              | Raise e \<Rightarrow> (Inl e, OpenVersion (id_version r) # evs)
              | Normal \<Rightarrow> (Inr None, OpenVersion (id_version r) # evs @ [CloseVersion (id_version r)]))))"

section \<open>Project.get\_resource\<close>

text \<open>
  \<^verbatim>\<open>filter_args\<close> is the dictionary of keyword arguments, in the order they were
  given. \<^verbatim>\<open>hasattr\<close> is definedness of the attribute, \<^verbatim>\<open>getattr\<close> its value.
\<close>

fun apply_filter :: "(string \<times> pyval) list \<Rightarrow> resource \<Rightarrow> bool" where
  "apply_filter [] r = True"
| "apply_filter ((arg, val) # rest) r =
     (case attrs r arg of
        None \<Rightarrow> False
      | Some v \<Rightarrow> if v \<noteq> val then False else apply_filter rest r)"

fun get_resource_loop :: "string \<Rightarrow> (string \<times> pyval) list \<Rightarrow> resource list \<Rightarrow> resource option" where
  "get_resource_loop resource_type filter_args [] = None"
| "get_resource_loop resource_type filter_args (r # rs) =
     (if \<not> is_type r resource_type then get_resource_loop resource_type filter_args rs
      else if \<not> apply_filter filter_args r then get_resource_loop resource_type filter_args rs
      else Some r)"

definition get_resource :: "string \<Rightarrow> (string \<times> pyval) list \<Rightarrow> project \<Rightarrow> resource option" where
  "get_resource resource_type filter_args p =
     get_resource_loop resource_type filter_args (map snd (resources p))"

section \<open>Project.deploy and Project.dryrun\<close>

text \<open>\<^verbatim>\<open>finalize_context\<close> serialises the logs and keeps nothing.\<close>

definition finalize_context :: "collab \<Rightarrow> handler_context \<Rightarrow> exn option \<times> event list" where
  "finalize_context E ctx = (json_encode E (logs ctx), [JsonEncode (logs ctx)])"

text \<open>
  The handler's \<^verbatim>\<open>upload_file\<close> is \<^verbatim>\<open>lambda x, y: self.add_blob(x, y)\<close>: a call
  of \<^verbatim>\<open>add_blob\<close> without its third argument.
\<close>

fun upload_files :: "(string \<times> string) list \<Rightarrow> project \<Rightarrow> exn option \<times> project" where
  "upload_files [] p = (None, p)"
| "upload_files ((x, y) # rest) p =
     (case add_blob x y None p of
        (Some e, p') \<Rightarrow> (Some e, p')
      | (None, p') \<Rightarrow> upload_files rest p')"

definition new_context :: "resource \<Rightarrow> handler_context" where
  "new_context r = \<lparr>ctx_resource = r, status = None, logs = [], changes = []\<rparr>"

definition dry_run_default :: bool where
  "dry_run_default = False"

definition run_as_root_default :: bool where
  "run_as_root_default = False"

text \<open>
  \<^verbatim>\<open>def deploy(self, resource, dry_run=False, run_as_root=False)\<close>. The two optional
  arguments are options: \<open>None\<close> is the call that leaves the argument out. The result
  is the returned context or the exception, the calls made, and the project afterwards.
\<close>

definition deploy ::
  "collab \<Rightarrow> resource \<Rightarrow> bool option \<Rightarrow> bool option \<Rightarrow> project
     \<Rightarrow> (exn + handler_context) \<times> event list \<times> project" where
  "deploy E r dry_run_arg run_as_root_arg p =
     (let dry_run = (case dry_run_arg of None \<Rightarrow> dry_run_default | Some b \<Rightarrow> b);
          run_as_root = (case run_as_root_arg of None \<Rightarrow> run_as_root_default | Some b \<Rightarrow> b)
      in case get_handler E r run_as_root of
        (Inl e, evs) \<Rightarrow> (Inl e, evs, p)
      | (Inr None, evs) \<Rightarrow> (Inl (AssertionError []), evs, p)
      | (Inr (Some h), evs) \<Rightarrow>
          (let run = execute E h (new_context r) r dry_run (blobs p);
               evs1 = evs @ [Execute h r dry_run]
           in case upload_files (run_uploads run) p of
             (Some e, p') \<Rightarrow> (Inl e, evs1, p')
           | (None, p') \<Rightarrow>
               (case run_raised run of
                  Some e \<Rightarrow> (Inl e, evs1, p')
                | None \<Rightarrow>
                    (case finalize_context E (run_ctx run) of
                       (Some e, evs2) \<Rightarrow> (Inl e, evs1 @ evs2, p')
                     | (None, evs2) \<Rightarrow> (Inr (run_ctx run), evs1 @ evs2, p')))))"

text \<open>\<^verbatim>\<open>def dryrun(self, resource, run_as_root=False)\<close>.\<close>

definition dryrun ::
  "collab \<Rightarrow> resource \<Rightarrow> bool option \<Rightarrow> project
     \<Rightarrow> (exn + handler_context) \<times> event list \<times> project" where
  "dryrun E r run_as_root_arg p =
     (let run_as_root = (case run_as_root_arg of None \<Rightarrow> run_as_root_default | Some b \<Rightarrow> b)
      in deploy E r (Some True) (Some run_as_root) p)"

section \<open>Project.deploy\_resource and Project.dryrun\_resource\<close>

definition status_default :: resource_state where
  "status_default = deployed"

definition no_resource_found :: exn where
  "no_resource_found = AssertionError ''No resource found of given type and filter args''"

text \<open>The dump printed when the status is not the requested one.\<close>

definition print_log :: "log_line \<Rightarrow> event list" where
  "print_log l =
     [Print [PStr ''Log: '', PStr (msg l)],
      Print [PStr ''Kwargs: '',
             PStrs (map (\<lambda>(k, v). k @ '': '' @ v) (filter (\<lambda>(k, v). k \<noteq> ''traceback'') (kwargs l)))]]
     @ (case map_of (kwargs l) ''traceback'' of
          None \<Rightarrow> []
        | Some tb \<Rightarrow> [Print [PStr (''Traceback:'' @ [CHR 0x0A]), PStr tb]])"

definition print_diagnostics :: "handler_context \<Rightarrow> event list" where
  "print_diagnostics ctx =
     [Print [PStr ''Deploy did not result in correct status''],
      Print [PStr ''Requested changes: '', PChanges (changes ctx)]]
     @ concat (map print_log (logs ctx))"

text \<open>
  \<^verbatim>\<open>def deploy_resource(self, resource_type, status=const.ResourceState.deployed,
  run_as_root=False, **filter_args)\<close>. The call \<^verbatim>\<open>self.deploy(res, run_as_root)\<close>
  gives \<^verbatim>\<open>deploy\<close> one positional argument after the resource and leaves the next
  one out.
\<close>

definition deploy_resource ::
  "collab \<Rightarrow> string \<Rightarrow> resource_state option \<Rightarrow> bool option \<Rightarrow> (string \<times> pyval) list \<Rightarrow> project
     \<Rightarrow> (exn + resource) \<times> event list \<times> project" where
  "deploy_resource E resource_type status_arg run_as_root_arg filter_args p =
     (let st = (case status_arg of None \<Rightarrow> status_default | Some s \<Rightarrow> s);
          run_as_root = (case run_as_root_arg of None \<Rightarrow> run_as_root_default | Some b \<Rightarrow> b)
      in case get_resource resource_type filter_args p of
        None \<Rightarrow> (Inl no_resource_found, [], p)
      | Some res \<Rightarrow>
          (case deploy E res (Some run_as_root) None p of
             (Inl e, evs, p') \<Rightarrow> (Inl e, evs, p')
           | (Inr ctx, evs, p') \<Rightarrow>
               (if status ctx \<noteq> Some st
                then (Inl (AssertionError []), evs @ print_diagnostics ctx, p')
                else (case finalize_context E ctx of
                        (Some e, evs2) \<Rightarrow> (Inl e, evs @ evs2, p')
                      | (None, evs2) \<Rightarrow> (Inr res, evs @ evs2, p')))))"

text \<open>
  \<^verbatim>\<open>def dryrun_resource(self, resource_type, status=const.ResourceState.deployed,
  run_as_root=False, **filter_args)\<close>: \<^verbatim>\<open>status\<close> is accepted and not read.
\<close>

definition dryrun_resource ::
  "collab \<Rightarrow> string \<Rightarrow> resource_state option \<Rightarrow> bool option \<Rightarrow> (string \<times> pyval) list \<Rightarrow> project
     \<Rightarrow> (exn + (string \<times> pyval \<times> pyval) list) \<times> event list \<times> project" where
  "dryrun_resource E resource_type status_arg run_as_root_arg filter_args p =
     (let run_as_root = (case run_as_root_arg of None \<Rightarrow> run_as_root_default | Some b \<Rightarrow> b)
      in case get_resource resource_type filter_args p of
        None \<Rightarrow> (Inl no_resource_found, [], p)
      | Some res \<Rightarrow>
          (case dryrun E res (Some run_as_root) p of
             (Inl e, evs, p') \<Rightarrow> (Inl e, evs, p')
           | (Inr ctx, evs, p') \<Rightarrow>
               (if status ctx \<noteq> Some dry
                then (Inl (AssertionError []), evs, p')
                else (Inr (changes ctx), evs, p'))))"

section \<open>Project.compile\<close>

text \<open>
  \<^verbatim>\<open>compile\<close> writes \<^verbatim>\<open>main.cf\<close> (the file system is not part of the project
  state), flushes the capture buffer of \<^verbatim>\<open>self._capsys\<close> (an attribute error when
  \<^verbatim>\<open>init\<close> has not set it), compiles with the facts, exports, stores every blob of
  the exporter's file store with \<^verbatim>\<open>add_blob(key, blob)\<close>, and only then assigns
  \<^verbatim>\<open>version\<close>, \<^verbatim>\<open>resources\<close>, \<^verbatim>\<open>types\<close>, the exporter and the captured
  output.
\<close>

definition no_readouterr :: exn where
  "no_readouterr =
     AttributeError ([CHR 0x27] @ ''NoneType'' @ [CHR 0x27] @ '' object has no attribute ''
                     @ [CHR 0x27] @ ''readouterr'' @ [CHR 0x27])"

definition compile :: "collab \<Rightarrow> string \<Rightarrow> project \<Rightarrow> exn option \<times> project" where
  "compile E main p =
     (case capsys p of
        None \<Rightarrow> (Some no_readouterr, p)
      | Some cs \<Rightarrow>
          (case do_compile E main (facts p) of
             Inl e \<Rightarrow> (Some e, p)
           | Inr (tys, scopes) \<Rightarrow>
               (case exporter_run E tys scopes of
                  Inl e \<Rightarrow> (Some e, p)
                | Inr ex \<Rightarrow>
                    (case upload_files (ex_file_store ex) p of
                       (Some e, p') \<Rightarrow> (Some e, p')
                     | (None, p') \<Rightarrow>
                         (None,
                          p'\<lparr>version := Some (ex_version ex), resources := ex_resources ex,
                             types := Some tys, exporter := Some (ex_handle ex),
                             p_stdout := Some (fst (readouterr E main)),
                             p_stderr := Some (snd (readouterr E main))\<rparr>)))))"

text \<open>
  The calls a test makes between two \<^verbatim>\<open>init\<close>s; an exception ends the call that
  raised it and the test goes on with the project as that call left it.
\<close>

datatype op =
    Compile string
  | AddFact string string pyval
  | AddBlob string string "bool option"

fun run_op :: "collab \<Rightarrow> op \<Rightarrow> project \<Rightarrow> project" where
  "run_op E (Compile main) p = snd (compile E main p)"
| "run_op E (AddFact resource_id name val) p = add_fact resource_id name val p"
| "run_op E (AddBlob key content allow_overwrite) p = snd (add_blob key content allow_overwrite p)"

fun run_ops :: "collab \<Rightarrow> op list \<Rightarrow> project \<Rightarrow> project" where
  "run_ops E [] p = p"
| "run_ops E (x # xs) p = run_ops E xs (run_op E x p)"

section \<open>The plugin loader\<close>

text \<open>
  What the loader asks of the file system and of the import machinery: the working
  directory captured in \<^verbatim>\<open>CURDIR\<close>, \<^verbatim>\<open>os.path.exists\<close>, the name read from
  \<^verbatim>\<open>module.yml\<close> (\<^verbatim>\<open>open\<close> and \<^verbatim>\<open>yaml.load(m)["name"]\<close>, or what they
  raise), \<^verbatim>\<open>imp.load_package\<close>, \<^verbatim>\<open>glob.glob\<close> with the order it lists the
  files in, and \<^verbatim>\<open>imp.load_source\<close> followed by \<^verbatim>\<open>importlib.import_module\<close>,
  which yield the items of the module's \<^verbatim>\<open>__dict__\<close> in order.
\<close>

record loader_env =
  curdir :: string
  module_yml_name :: "exn + string"
  path_exists :: "string \<Rightarrow> bool"
  load_package :: "string \<Rightarrow> string \<Rightarrow> exn option"
  glob_files :: "string \<Rightarrow> string list"
  load_source :: "string \<Rightarrow> string \<Rightarrow> exn + (string \<times> pyobj) list"

text \<open>\<^verbatim>\<open>os.path.join\<close> of two components, \<^verbatim>\<open>os.path.basename\<close>, \<^verbatim>\<open>s.split(".")[0]\<close>.\<close>

definition path_join :: "string \<Rightarrow> string \<Rightarrow> string" where
  "path_join a b =
     (if b \<noteq> [] \<and> hd b = CHR ''/'' then b
      else if a = [] \<or> last a = CHR ''/'' then a @ b
      else a @ ''/'' @ b)"

definition basename :: "string \<Rightarrow> string" where
  "basename s = rev (takeWhile (\<lambda>c. c \<noteq> CHR ''/'') (rev s))"

definition before_first_dot :: "string \<Rightarrow> string" where
  "before_first_dot s = takeWhile (\<lambda>c. c \<noteq> CHR ''.'') s"

text \<open>\<^verbatim>\<open>s.split(sep)\<close> for a one-character separator.\<close>

fun split_on :: "char \<Rightarrow> string \<Rightarrow> string list" where
  "split_on sep [] = [[]]"
| "split_on sep (c # cs) =
     (if c = sep then [] # split_on sep cs
      else (case split_on sep cs of [] \<Rightarrow> [[c]] | w # ws \<Rightarrow> (c # w) # ws))"

text \<open>\<^verbatim>\<open>os.path.join("/", *dir_path)\<close>.\<close>

definition join_root :: "string list \<Rightarrow> string" where
  "join_root dir_path = foldl path_join ''/'' dir_path"

text \<open>
  The loop of \<^verbatim>\<open>get_module_info\<close>: drop the last component until the directory
  holds a \<^verbatim>\<open>module.yml\<close> or no component is left.
\<close>

function find_module_path :: "loader_env \<Rightarrow> string list \<Rightarrow> string list" where
  "find_module_path F dir_path =
     (if \<not> path_exists F (path_join (join_root dir_path) ''module.yml'') \<and> length dir_path > 0
      then find_module_path F (butlast dir_path)
      else dir_path)"
  by pat_completeness auto
termination
  by (relation "measure (\<lambda>(F, dir_path). length dir_path)") auto

definition not_in_module :: "string \<Rightarrow> exn" where
  "not_in_module cur =
     Exception (''Module test case have to be saved in the module they are intended for. ''
                @ cur @ '' not part of module path'')"

definition get_module_info :: "loader_env \<Rightarrow> exn + string \<times> string" where
  "get_module_info F =
     (let dir_path = find_module_path F (split_on CHR ''/'' (curdir F)) in
      if length dir_path = 0 then Inl (not_in_module (curdir F))
      else
        (let module_dir = join_root dir_path in
         case module_yml_name F of
           Inl e \<Rightarrow> Inl e
         | Inr module_name \<Rightarrow> Inr (module_dir, module_name)))"

definition is_function :: "pyobj \<Rightarrow> bool" where
  "is_function v = (case v of FunctionObj f \<Rightarrow> True | OtherObj x \<Rightarrow> False)"

text \<open>The inner loop: \<^verbatim>\<open>result[k] = v\<close> for every function of the module.\<close>

fun collect_functions :: "(string \<times> pyobj) list \<Rightarrow> registry \<Rightarrow> registry" where
  "collect_functions [] result = result"
| "collect_functions ((k, v) # items) result =
     (if is_function v then collect_functions items (result(k \<mapsto> v))
      else collect_functions items result)"

text \<open>The outer loop over the files that \<^verbatim>\<open>glob\<close> lists.\<close>

fun load_files :: "loader_env \<Rightarrow> string \<Rightarrow> string list \<Rightarrow> registry \<Rightarrow> exn + registry" where
  "load_files F mod_name [] result = Inr result"
| "load_files F mod_name (py_file # rest) result =
     (let sub_mod_path = ''inmanta_plugins.'' @ mod_name @ ''.'' @ before_first_dot (basename py_file)
      in case load_source F sub_mod_path py_file of
        Inl e \<Rightarrow> Inl e
      | Inr items \<Rightarrow> load_files F mod_name rest (collect_functions items result))"

definition no_init_py :: exn where
  "no_init_py = Exception (''Plugins directory doesn'' @ [CHR 0x27] @ ''t have a __init__.py file.'')"

text \<open>
  \<^verbatim>\<open>_load_plugins\<close>. The bare \<^verbatim>\<open>return\<close> of the first test returns Python's
  \<^verbatim>\<open>None\<close>: \<open>Inr None\<close>.
\<close>

definition load_plugins :: "loader_env \<Rightarrow> exn + registry option" where
  "load_plugins F =
     (case get_module_info F of
        Inl e \<Rightarrow> Inl e
      | Inr (module_dir, module_name) \<Rightarrow>
          (let plugin_dir = path_join module_dir ''plugins'' in
           if \<not> path_exists F plugin_dir then Inr None
           else if \<not> path_exists F (path_join plugin_dir ''__init__.py'') then Inl no_init_py
           else
             (let mod_name = basename module_dir in
              case load_package F (''inmanta_plugins.'' @ mod_name) plugin_dir of
                Some e \<Rightarrow> Inl e
              | None \<Rightarrow>
                  (case load_files F mod_name (glob_files F (path_join plugin_dir ''*.py'')) Map.empty of
                     Inl e \<Rightarrow> Inl e
                   | Inr result \<Rightarrow> Inr (Some result)))))"

text \<open>\<^verbatim>\<open>Project.__init__\<close>: the fields, with the registry the loader returned.\<close>

definition new_project :: "loader_env \<Rightarrow> collab \<Rightarrow> string \<Rightarrow> exn + project" where
  "new_project F E project_dir =
     (case load_plugins F of
        Inl e \<Rightarrow> Inl e
      | Inr reg \<Rightarrow>
          (case load_config E of
             Some e \<Rightarrow> Inl e
           | None \<Rightarrow>
               Inr \<lparr>test_project_dir = project_dir, p_stdout = None, p_stderr = None,
                    types = None, version = None, resources = [], exporter = None,
                    blobs = Map.empty, facts = Map.empty, plugins = reg, capsys = None\<rparr>))"

definition not_iterable :: exn where
  "not_iterable = TypeError (''argument of type '' @ [CHR 0x27] @ ''NoneType'' @ [CHR 0x27] @ '' is not iterable'')"

definition plugin_not_found :: "string \<Rightarrow> exn" where
  "plugin_not_found function_name =
     Exception (''Plugin function with name '' @ function_name @ '' not found'')"

text \<open>
  \<^verbatim>\<open>get_plugin_function\<close>: \<^verbatim>\<open>function_name not in self._plugins\<close> is a type
  error of the interpreter when \<^verbatim>\<open>self._plugins\<close> is \<^verbatim>\<open>None\<close>.
\<close>

definition get_plugin_function :: "string \<Rightarrow> project \<Rightarrow> exn + pyobj" where
  "get_plugin_function function_name p =
     (case plugins p of
        None \<Rightarrow> Inl not_iterable
      | Some reg \<Rightarrow>
          (case reg function_name of
             None \<Rightarrow> Inl (plugin_not_found function_name)
           | Some v \<Rightarrow> Inr v))"

section \<open>What the claims speak of\<close>

text \<open>
  "Of the given type, and every filter attribute exists on the resource and equals the
  filter value", in the words of the specification.
\<close>

definition matches_spec :: "string \<Rightarrow> (string \<times> pyval) list \<Rightarrow> resource \<Rightarrow> bool" where
  "matches_spec resource_type filter_args r =
     (is_type r resource_type \<and> list_all (\<lambda>(arg, val). attrs r arg = Some val) filter_args)"

text \<open>
  The files the loader visits, with the names it computes for them, and the top-level
  functions each of them defines (the functions of its \<^verbatim>\<open>__dict__\<close>, by name).
\<close>

definition plugin_dir_of :: "loader_env \<Rightarrow> string" where
  "plugin_dir_of F =
     (case get_module_info F of Inl e \<Rightarrow> [] | Inr (module_dir, module_name) \<Rightarrow> path_join module_dir ''plugins'')"

definition mod_name_of :: "loader_env \<Rightarrow> string" where
  "mod_name_of F =
     (case get_module_info F of Inl e \<Rightarrow> [] | Inr (module_dir, module_name) \<Rightarrow> basename module_dir)"

definition plugin_files :: "loader_env \<Rightarrow> string list" where
  "plugin_files F = glob_files F (path_join (plugin_dir_of F) ''*.py'')"

definition functions_of :: "loader_env \<Rightarrow> string \<Rightarrow> string \<Rightarrow> registry" where
  "functions_of F mod_name py_file =
     (case load_source F (''inmanta_plugins.'' @ mod_name @ ''.'' @ before_first_dot (basename py_file)) py_file of
        Inl e \<Rightarrow> Map.empty
      | Inr items \<Rightarrow> collect_functions items Map.empty)"

section \<open>Example data\<close>

definition ex_res :: resource where
  "ex_res =
     \<lparr>res_id = ''testmodule::Resource[a,name=IT]'', id_version = 1,
      is_type = (\<lambda>t. t = ''testmodule::Resource''),
      attrs = [''agent'' \<mapsto> VStr ''a'', ''name'' \<mapsto> VStr ''IT'', ''key'' \<mapsto> VStr ''k'',
               ''value'' \<mapsto> VStr ''write'']\<rparr>"

definition ex_other :: resource where
  "ex_other =
     \<lparr>res_id = ''std::File[a,path=/tmp/x]'', id_version = 1,
      is_type = (\<lambda>t. t = ''std::File''),
      attrs = [''agent'' \<mapsto> VStr ''a'', ''path'' \<mapsto> VStr ''/tmp/x'']\<rparr>"

text \<open>Collaborators that never raise; the handler reports the state the run asks for.\<close>

definition ex_collab :: collab where
  "ex_collab =
     \<lparr>load_config = None,
      open_version = (\<lambda>v. None),
      get_provider = (\<lambda>uri r. Inr 7),
      set_cache = (\<lambda>h. None),
      execute = (\<lambda>h ctx r dry_run bs.
         \<lparr>run_uploads = [], run_ctx = ctx\<lparr>status := Some (if dry_run then dry else deployed)\<rparr>,
          run_raised = None\<rparr>),
      json_encode = (\<lambda>ls. None),
      do_compile = (\<lambda>main fs. Inr (Map.empty, 0)),
      exporter_run = (\<lambda>tys scopes.
         Inr \<lparr>ex_version = 1, ex_resources = [(res_id ex_other, ex_other), (res_id ex_res, ex_res)],
              ex_file_store = [], ex_handle = 0\<rparr>),
      readouterr = (\<lambda>main. ([], []))\<rparr>"

definition ex_project :: project where
  "ex_project =
     \<lparr>test_project_dir = ''/tmp/project'', p_stdout = None, p_stderr = None,
      types = Some Map.empty, version = Some 1,
      resources = [(res_id ex_other, ex_other), (res_id ex_res, ex_res)],
      exporter = Some 0, blobs = [''k'' \<mapsto> ''old''], facts = Map.empty,
      plugins = Some Map.empty, capsys = Some 0\<rparr>"

text \<open>A module without a plugin directory, and one with two plugin files.\<close>

definition ex_no_plugin_dir :: loader_env where
  "ex_no_plugin_dir =
     \<lparr>curdir = ''/src/testmodule/tests'', module_yml_name = Inr ''testmodule'',
      path_exists = (\<lambda>path. path = ''/src/testmodule/module.yml''),
      load_package = (\<lambda>name dir. None),
      glob_files = (\<lambda>pat. []),
      load_source = (\<lambda>name file. Inr [])\<rparr>"

definition ex_no_init_py :: loader_env where
  "ex_no_init_py =
     ex_no_plugin_dir\<lparr>path_exists :=
       (\<lambda>path. path = ''/src/testmodule/module.yml'' \<or> path = ''/src/testmodule/plugins'')\<rparr>"

definition ex_two_files :: loader_env where
  "ex_two_files =
     \<lparr>curdir = ''/src/testmodule'', module_yml_name = Inr ''testmodule'',
      path_exists = (\<lambda>path. True),
      load_package = (\<lambda>name dir. None),
      glob_files = (\<lambda>pat. [''/src/testmodule/plugins/__init__.py'', ''/src/testmodule/plugins/a.py'',
                            ''/src/testmodule/plugins/b.py'']),
      load_source = (\<lambda>name file.
         if name = ''inmanta_plugins.testmodule.a''
         then Inr [(''__name__'', OtherObj ''a''), (''f'', FunctionObj ''a.f'')]
         else if name = ''inmanta_plugins.testmodule.b''
         then Inr [(''f'', FunctionObj ''b.f''), (''g'', FunctionObj ''b.g'')]
         else Inr [])\<rparr>"

text \<open>The registry the loader builds from the two plugin files.\<close>

definition ex_registry :: registry where
  "ex_registry = [''f'' \<mapsto> FunctionObj ''b.f'', ''g'' \<mapsto> FunctionObj ''b.g'']"

section \<open>Calls made by get\_handler and deploy\<close>

lemma get_handler_events:
  "ev \<in> set (snd (get_handler E r b)) \<Longrightarrow>
     ev = OpenVersion (id_version r) \<or> ev = GetProvider (mock_agent_uri b) r \<or> (\<exists>h. ev = SetCache h)"
  by (auto simp: get_handler_def get_handler_try_def except_reraise_def Let_def
      split: option.splits sum.splits)

lemma get_handler_success:
  "open_version E (id_version r) = None \<Longrightarrow> get_provider E (mock_agent_uri b) r = Inr h \<Longrightarrow>
   set_cache E h = None \<Longrightarrow>
   get_handler E r b = (Inr (Some h), [OpenVersion (id_version r), GetProvider (mock_agent_uri b) r, SetCache h])"
  by (simp add: get_handler_def get_handler_try_def except_reraise_def)

lemma deploy_events:
  "ev \<in> set (fst (snd (deploy E r d_arg b_arg p))) \<Longrightarrow>
     ev = OpenVersion (id_version r)
   \<or> ev = GetProvider (mock_agent_uri (case b_arg of None \<Rightarrow> run_as_root_default | Some b \<Rightarrow> b)) r
   \<or> (\<exists>h. ev = SetCache h)
   \<or> (\<exists>h. ev = Execute h r (case d_arg of None \<Rightarrow> dry_run_default | Some d \<Rightarrow> d))
   \<or> (\<exists>ls. ev = JsonEncode ls)"
  apply (simp add: deploy_def Let_def finalize_context_def split: prod.splits sum.splits option.splits)
  using get_handler_events [of ev E r "case b_arg of None \<Rightarrow> run_as_root_default | Some b \<Rightarrow> b"]
  apply auto
  done

lemma add_blob_default_never_raises:
  "add_blob x y None p = (None, p\<lparr>blobs := (blobs p)(x \<mapsto> y)\<rparr>)"
  by (simp add: add_blob_def allow_overwrite_default_def)

lemma upload_files_never_raises: "fst (upload_files us p) = None"
  by (induction us p rule: upload_files.induct) (simp_all add: add_blob_default_never_raises)

lemma get_handler_open_fails:
  "open_version E (id_version r) = Some e \<Longrightarrow>
   get_handler E r b = (Inl e, [OpenVersion (id_version r)])"
  by (simp add: get_handler_def)

lemma get_handler_provider_fails:
  "open_version E (id_version r) = None \<Longrightarrow> get_provider E (mock_agent_uri b) r = Inl e \<Longrightarrow>
   get_handler E r b = (Inl e, [OpenVersion (id_version r), GetProvider (mock_agent_uri b) r])"
  by (simp add: get_handler_def get_handler_try_def except_reraise_def)

lemma get_handler_set_cache_fails:
  "open_version E (id_version r) = None \<Longrightarrow> get_provider E (mock_agent_uri b) r = Inr h \<Longrightarrow>
   set_cache E h = Some e \<Longrightarrow>
   get_handler E r b
     = (Inl e, [OpenVersion (id_version r), GetProvider (mock_agent_uri b) r, SetCache h])"
  by (simp add: get_handler_def get_handler_try_def except_reraise_def)

lemma deploy_runs_handler:
  assumes "open_version E (id_version r) = None"
    and "get_provider E (mock_agent_uri root) r = Inr h"
    and "set_cache E h = None"
  shows "deploy E r (Some d) (Some root) p =
    (let run = execute E h (new_context r) r d (blobs p);
         called = [OpenVersion (id_version r), GetProvider (mock_agent_uri root) r, SetCache h,
                   Execute h r d];
         p' = snd (upload_files (run_uploads run) p)
     in case run_raised run of
          Some e \<Rightarrow> (Inl e, called, p')
        | None \<Rightarrow>
            (case json_encode E (logs (run_ctx run)) of
               Some e \<Rightarrow> (Inl e, called @ [JsonEncode (logs (run_ctx run))], p')
             | None \<Rightarrow> (Inr (run_ctx run), called @ [JsonEncode (logs (run_ctx run))], p')))"
proof -
  obtain p' where up: "upload_files (run_uploads (execute E h (new_context r) r d (blobs p))) p = (None, p')"
    using upload_files_never_raises
      [of "run_uploads (execute E h (new_context r) r d (blobs p))" p]
    by (cases "upload_files (run_uploads (execute E h (new_context r) r d (blobs p))) p") simp
  show ?thesis
    by (simp add: deploy_def Let_def get_handler_success [OF assms] up finalize_context_def
        split: option.splits)
qed

lemma deploy_default_root: "deploy E r d_arg None p = deploy E r d_arg (Some False) p"
  by (simp add: deploy_def run_as_root_default_def)

lemma deploy_resource_events:
  "get_resource rt fs p = Some res \<Longrightarrow>
   \<exists>evs'. fst (snd (deploy_resource E rt st_arg b_arg fs p))
      = fst (snd (deploy E res (Some (case b_arg of None \<Rightarrow> run_as_root_default | Some b \<Rightarrow> b)) None p)) @ evs'
     \<and> (\<forall>ev \<in> set evs'. (\<exists>ls. ev = JsonEncode ls) \<or> (\<exists>as. ev = Print as))"
  by (auto simp: deploy_resource_def Let_def finalize_context_def print_diagnostics_def print_log_def
      split: prod.splits sum.splits option.splits)

section \<open>Facts about the example data\<close>

lemma ex_get_resource: "get_resource ''testmodule::Resource'' [] ex_project = Some ex_res"
  by (simp add: get_resource_def ex_project_def ex_res_def ex_other_def)

lemma ex_collab_calls:
  "open_version ex_collab n = None"
  "get_provider ex_collab ''local:'' ex_res = Inr 7"
  "set_cache ex_collab 7 = None"
  "json_encode ex_collab ls = None"
  "execute ex_collab 7 (new_context ex_res) ex_res d (blobs ex_project)
     = \<lparr>run_uploads = [],
        run_ctx = \<lparr>ctx_resource = ex_res, status = Some (if d then dry else deployed), logs = [],
                   changes = []\<rparr>,
        run_raised = None\<rparr>"
  by (simp_all add: ex_collab_def new_context_def)

lemma ex_no_nfs: "get_resource ''nfs::Export'' [] ex_project = None"
  by (simp add: get_resource_def ex_project_def ex_res_def ex_other_def)

lemma ex_deploy:
  "deploy ex_collab ex_res (Some False) None ex_project
     = (Inr \<lparr>ctx_resource = ex_res, status = Some deployed, logs = [], changes = []\<rparr>,
        [OpenVersion 1, GetProvider ''local:'' ex_res, SetCache 7, Execute 7 ex_res False, JsonEncode []],
        ex_project)"
  by (simp add: deploy_def get_handler_def get_handler_try_def except_reraise_def ex_collab_def
      finalize_context_def new_context_def run_as_root_default_def mock_agent_uri_def ex_res_def)

lemma ex_dryrun:
  "dryrun ex_collab ex_res (Some False) ex_project
     = (Inr \<lparr>ctx_resource = ex_res, status = Some dry, logs = [], changes = []\<rparr>,
        [OpenVersion 1, GetProvider ''local:'' ex_res, SetCache 7, Execute 7 ex_res True, JsonEncode []],
        ex_project)"
  by (simp add: dryrun_def deploy_def get_handler_def get_handler_try_def except_reraise_def ex_collab_def
      finalize_context_def new_context_def run_as_root_default_def mock_agent_uri_def ex_res_def)

section \<open>Filtering\<close>

lemma apply_filter_matches:
  "apply_filter fs r = list_all (\<lambda>(arg, val). attrs r arg = Some val) fs"
  by (induction fs r rule: apply_filter.induct) (auto split: option.splits)

lemma get_resource_loop_find:
  "get_resource_loop rt fs rs = find (matches_spec rt fs) rs"
  by (induction rs) (simp_all add: matches_spec_def apply_filter_matches)

section \<open>The registry built by the loader\<close>

lemma collect_functions_add:
  "collect_functions items r = r ++ collect_functions items Map.empty"
proof (induction items arbitrary: r)
  case Nil
  then show ?case by simp
next
  case (Cons kv items)
  obtain k v where kv: "kv = (k, v)" by (cases kv)
  show ?case
  proof (cases "is_function v")
    case True
    have "collect_functions (kv # items) r = collect_functions items (r(k \<mapsto> v))"
      using True kv by simp
    also have "\<dots> = r(k \<mapsto> v) ++ collect_functions items Map.empty"
      by (rule Cons.IH)
    also have "\<dots> = r ++ (Map.empty(k \<mapsto> v) ++ collect_functions items Map.empty)"
      by (metis map_add_assoc map_add_empty map_add_upd)
    also have "\<dots> = r ++ collect_functions items (Map.empty(k \<mapsto> v))"
      by (simp only: Cons.IH [of "Map.empty(k \<mapsto> v)", symmetric])
    also have "\<dots> = r ++ collect_functions (kv # items) Map.empty"
      using True kv by simp
    finally show ?thesis .
  next
    case False
    then show ?thesis using kv Cons.IH [of r] by simp
  qed
qed

lemma load_files_step:
  "load_files F mn (f # rest) r = Inr reg \<Longrightarrow>
   load_files F mn rest (r ++ functions_of F mn f) = Inr reg"
  by (auto simp: functions_of_def Let_def collect_functions_add [of _ r] split: sum.splits)

lemma load_files_none:
  "load_files F mn files r = Inr reg \<Longrightarrow> \<forall>f \<in> set files. functions_of F mn f name = None \<Longrightarrow>
   reg name = r name"
proof (induction files arbitrary: r)
  case Nil
  then show ?case by simp
next
  case (Cons f rest)
  have "reg name = (r ++ functions_of F mn f) name"
    using Cons.IH [OF load_files_step [OF Cons.prems(1)]] Cons.prems(2) by simp
  then show ?case using Cons.prems(2) by (simp add: map_add_def)
qed

lemma load_files_last:
  "load_files F mn files r = Inr reg \<Longrightarrow> j < length files \<Longrightarrow>
   functions_of F mn (files ! j) name = Some v \<Longrightarrow>
   \<forall>k. j < k \<and> k < length files \<longrightarrow> functions_of F mn (files ! k) name = None \<Longrightarrow>
   reg name = Some v"
proof (induction files arbitrary: r j)
  case Nil
  then show ?case by simp
next
  case (Cons f rest)
  note step = load_files_step [OF Cons.prems(1)]
  show ?case
  proof (cases j)
    case 0
    have "\<forall>g \<in> set rest. functions_of F mn g name = None"
    proof
      fix g assume "g \<in> set rest"
      then obtain k where "k < length rest" "rest ! k = g" by (auto simp: in_set_conv_nth)
      then show "functions_of F mn g name = None"
        using Cons.prems(4) [rule_format, of "Suc k"] 0 by simp
    qed
    then have "reg name = (r ++ functions_of F mn f) name"
      using load_files_none [OF step] by simp
    then show ?thesis using Cons.prems(3) 0 by (simp add: map_add_def)
  next
    case (Suc j')
    have later: "\<forall>k. j' < k \<and> k < length rest \<longrightarrow> functions_of F mn (rest ! k) name = None"
    proof (intro allI impI)
      fix k assume "j' < k \<and> k < length rest"
      then show "functions_of F mn (rest ! k) name = None"
        using Cons.prems(4) [rule_format, of "Suc k"] Suc by simp
    qed
    show ?thesis
      using Cons.IH [OF step, of j'] Cons.prems(2,3) Suc later by simp
  qed
qed

lemma load_plugins_files:
  "load_plugins F = Inr (Some reg) \<Longrightarrow>
   load_files F (mod_name_of F) (plugin_files F) Map.empty = Inr reg"
  by (auto simp: load_plugins_def mod_name_of_def plugin_files_def plugin_dir_of_def Let_def
      split: sum.splits prod.splits if_splits option.splits)

lemma ex_two_files_loaded: "load_plugins ex_two_files = Inr (Some ex_registry)"
  by (simp add: load_plugins_def ex_two_files_def ex_registry_def get_module_info_def
      join_root_def path_join_def basename_def before_first_dot_def is_function_def)

section \<open>Deploying by type and filter\<close>

text \<open>
  Claim C1. When \<^verbatim>\<open>deploy_resource\<close> finds a matching resource, its
  \<^verbatim>\<open>run_as_root\<close> argument is what \<^verbatim>\<open>deploy\<close> receives as \<^verbatim>\<open>dry_run\<close>,
  with \<^verbatim>\<open>run_as_root\<close> false: the provider is looked up for the matched resource on
  the agent \<^verbatim>\<open>local:\<close> only, and once the cache opens and the provider is resolved
  and configured, the result, the calls and the project afterwards are those of the
  handler applied to a fresh context, the matched resource and \<^verbatim>\<open>dry_run\<close> equal to
  \<^verbatim>\<open>run_as_root\<close>; when opening, resolving or configuring fails, its exception is
  the result and the handler is not run.
\<close>

theorem C1_deploy_resource_run_as_root_is_dry_run:
  assumes "get_resource rt fs p = Some res"
  shows "let b = (case b_arg of None \<Rightarrow> run_as_root_default | Some b \<Rightarrow> b);
             st = (case st_arg of None \<Rightarrow> status_default | Some s \<Rightarrow> s);
             v = id_version res;
             result = deploy_resource E rt st_arg b_arg fs p;
             evs = fst (snd result)
         in (\<forall>uri r. GetProvider uri r \<in> set evs \<longrightarrow> uri = ''local:'' \<and> r = res)
          \<and> (\<forall>h r d. Execute h r d \<in> set evs \<longrightarrow> d = b \<and> r = res)
          \<and> (\<forall>e. open_version E v = Some e \<longrightarrow> result = (Inl e, [OpenVersion v], p))
          \<and> (\<forall>e. open_version E v = None \<and> get_provider E ''local:'' res = Inl e \<longrightarrow>
                result = (Inl e, [OpenVersion v, GetProvider ''local:'' res], p))
          \<and> (\<forall>h e. open_version E v = None \<and> get_provider E ''local:'' res = Inr h
                  \<and> set_cache E h = Some e \<longrightarrow>
                result = (Inl e, [OpenVersion v, GetProvider ''local:'' res, SetCache h], p))
          \<and> (\<forall>h. open_version E v = None \<and> get_provider E ''local:'' res = Inr h
                  \<and> set_cache E h = None \<longrightarrow>
                (let run = execute E h (new_context res) res b (blobs p);
                     ctx = run_ctx run;
                     called = [OpenVersion v, GetProvider ''local:'' res, SetCache h, Execute h res b];
                     p' = snd (upload_files (run_uploads run) p)
                 in result =
                   (case run_raised run of
                      Some e \<Rightarrow> (Inl e, called, p')
                    | None \<Rightarrow>
                        (case json_encode E (logs ctx) of
                           Some e \<Rightarrow> (Inl e, called @ [JsonEncode (logs ctx)], p')
                         | None \<Rightarrow>
                             if status ctx \<noteq> Some st
                             then (Inl (AssertionError []),
                                   called @ [JsonEncode (logs ctx)] @ print_diagnostics ctx, p')
                             else (Inr res, called @ [JsonEncode (logs ctx), JsonEncode (logs ctx)], p')))))
          \<and> result =
              (case deploy E res (Some b) (Some False) p of
                 (Inl e, called, p') \<Rightarrow> (Inl e, called, p')
               | (Inr ctx, called, p') \<Rightarrow>
                   (if status ctx \<noteq> Some st
                    then (Inl (AssertionError []), called @ print_diagnostics ctx, p')
                    else (case json_encode E (logs ctx) of
                            Some e \<Rightarrow> (Inl e, called @ [JsonEncode (logs ctx)], p')
                          | None \<Rightarrow> (Inr res, called @ [JsonEncode (logs ctx)], p'))))"
proof -
  define b where "b = (case b_arg of None \<Rightarrow> run_as_root_default | Some b \<Rightarrow> b)"
  define st where "st = (case st_arg of None \<Rightarrow> status_default | Some s \<Rightarrow> s)"
  define result where "result = deploy_resource E rt st_arg b_arg fs p"
  define evs where "evs = fst (snd result)"
  have local: "mock_agent_uri False = ''local:''"
    by (simp add: mock_agent_uri_def)
  have unfolded: "result =
      (case deploy E res (Some b) (Some False) p of
         (Inl e, evs, p') \<Rightarrow> (Inl e, evs, p')
       | (Inr ctx, evs, p') \<Rightarrow>
           (if status ctx \<noteq> Some st
            then (Inl (AssertionError []), evs @ print_diagnostics ctx, p')
            else (case finalize_context E ctx of
                    (Some e, evs2) \<Rightarrow> (Inl e, evs @ evs2, p')
                  | (None, evs2) \<Rightarrow> (Inr res, evs @ evs2, p'))))"
    unfolding result_def b_def st_def using assms
    by (simp add: deploy_resource_def deploy_default_root)
  obtain evs' where split: "evs = fst (snd (deploy E res (Some b) None p)) @ evs'"
    and rest: "\<forall>ev \<in> set evs'. (\<exists>ls. ev = JsonEncode ls) \<or> (\<exists>as. ev = Print as)"
    using deploy_resource_events [OF assms, of E st_arg b_arg]
    unfolding evs_def result_def b_def by blast
  have inner: "ev \<in> set (fst (snd (deploy E res (Some b) None p))) \<Longrightarrow>
      ev = OpenVersion (id_version res) \<or> ev = GetProvider ''local:'' res
      \<or> (\<exists>h. ev = SetCache h) \<or> (\<exists>h. ev = Execute h res b) \<or> (\<exists>ls. ev = JsonEncode ls)" for ev
    using deploy_events [of ev E res "Some b" None p] by (simp add: run_as_root_default_def local)
  have provider: "\<forall>uri r. GetProvider uri r \<in> set evs \<longrightarrow> uri = ''local:'' \<and> r = res"
    using inner rest unfolding split by fastforce
  have executed: "\<forall>h r d. Execute h r d \<in> set evs \<longrightarrow> d = b \<and> r = res"
    using inner rest unfolding split by fastforce
  have no_open: "result = (Inl e, [OpenVersion (id_version res)], p)"
    if "open_version E (id_version res) = Some e" for e
    unfolding unfolded
    by (simp add: deploy_def run_as_root_default_def get_handler_open_fails [OF that])
  have no_provider: "result = (Inl e, [OpenVersion (id_version res), GetProvider ''local:'' res], p)"
    if "open_version E (id_version res) = None" and "get_provider E ''local:'' res = Inl e" for e
    unfolding unfolded
    using get_handler_provider_fails [of E res False e] that
    by (simp add: deploy_def local)
  have no_cache: "result
      = (Inl e, [OpenVersion (id_version res), GetProvider ''local:'' res, SetCache h], p)"
    if "open_version E (id_version res) = None" and "get_provider E ''local:'' res = Inr h"
      and "set_cache E h = Some e" for h e
    unfolding unfolded
    using get_handler_set_cache_fails [of E res False h e] that
    by (simp add: deploy_def local)
  have runs: "let run = execute E h (new_context res) res b (blobs p);
                  ctx = run_ctx run;
                  called = [OpenVersion (id_version res), GetProvider ''local:'' res, SetCache h,
                            Execute h res b];
                  p' = snd (upload_files (run_uploads run) p)
              in result =
                (case run_raised run of
                   Some e \<Rightarrow> (Inl e, called, p')
                 | None \<Rightarrow>
                     (case json_encode E (logs ctx) of
                        Some e \<Rightarrow> (Inl e, called @ [JsonEncode (logs ctx)], p')
                      | None \<Rightarrow>
                          if status ctx \<noteq> Some st
                          then (Inl (AssertionError []),
                                called @ [JsonEncode (logs ctx)] @ print_diagnostics ctx, p')
                          else (Inr res, called @ [JsonEncode (logs ctx), JsonEncode (logs ctx)], p')))"
    if "open_version E (id_version res) = None" and "get_provider E ''local:'' res = Inr h"
      and "set_cache E h = None" for h
    unfolding unfolded
    using deploy_runs_handler [of E res False h b p] that
    by (simp add: local Let_def finalize_context_def split: option.splits)
  have delegated: "result =
      (case deploy E res (Some b) (Some False) p of
         (Inl e, called, p') \<Rightarrow> (Inl e, called, p')
       | (Inr ctx, called, p') \<Rightarrow>
           (if status ctx \<noteq> Some st
            then (Inl (AssertionError []), called @ print_diagnostics ctx, p')
            else (case json_encode E (logs ctx) of
                    Some e \<Rightarrow> (Inl e, called @ [JsonEncode (logs ctx)], p')
                  | None \<Rightarrow> (Inr res, called @ [JsonEncode (logs ctx)], p'))))"
    unfolding unfolded
    by (simp add: finalize_context_def split: prod.splits sum.splits option.splits)
  show ?thesis
    unfolding Let_def
    using provider executed no_open no_provider no_cache runs delegated
    unfolding Let_def b_def st_def evs_def result_def
    by blast
qed

text \<open>
  With \<^verbatim>\<open>run_as_root=True\<close> the example handler is run dry on the local agent and
  leaves the state \<^verbatim>\<open>dry\<close>: the default expectation \<^verbatim>\<open>deployed\<close> fails and the
  expectation \<^verbatim>\<open>dry\<close> is met. Without the argument the handler deploys.
\<close>

theorem C1_witness:
  "get_resource ''testmodule::Resource'' [] ex_project = Some ex_res
   \<and> deploy_resource ex_collab ''testmodule::Resource'' None (Some True) [] ex_project
       = (Inl (AssertionError []),
          [OpenVersion 1, GetProvider ''local:'' ex_res, SetCache 7, Execute 7 ex_res True,
           JsonEncode [], Print [PStr ''Deploy did not result in correct status''],
           Print [PStr ''Requested changes: '', PChanges []]],
          ex_project)
   \<and> deploy_resource ex_collab ''testmodule::Resource'' (Some dry) (Some True) [] ex_project
       = (Inr ex_res,
          [OpenVersion 1, GetProvider ''local:'' ex_res, SetCache 7, Execute 7 ex_res True,
           JsonEncode [], JsonEncode []],
          ex_project)
   \<and> deploy_resource ex_collab ''testmodule::Resource'' None None [] ex_project
       = (Inr ex_res,
          [OpenVersion 1, GetProvider ''local:'' ex_res, SetCache 7, Execute 7 ex_res False,
           JsonEncode [], JsonEncode []],
          ex_project)"
proof -
  have v: "id_version ex_res = 1"
    by (simp add: ex_res_def)
  have a: "deploy_resource ex_collab ''testmodule::Resource'' None (Some True) [] ex_project
       = (Inl (AssertionError []),
          [OpenVersion 1, GetProvider ''local:'' ex_res, SetCache 7, Execute 7 ex_res True,
           JsonEncode [], Print [PStr ''Deploy did not result in correct status''],
           Print [PStr ''Requested changes: '', PChanges []]],
          ex_project)"
    using C1_deploy_resource_run_as_root_is_dry_run
        [OF ex_get_resource, where E = ex_collab and b_arg = "Some True" and st_arg = None,
        unfolded Let_def, THEN conjunct2, THEN conjunct2, THEN conjunct2, THEN conjunct2,
        THEN conjunct2, THEN conjunct1, THEN spec, of 7]
    by (simp add: Let_def ex_collab_calls v status_default_def print_diagnostics_def)
  have b: "deploy_resource ex_collab ''testmodule::Resource'' (Some dry) (Some True) [] ex_project
       = (Inr ex_res,
          [OpenVersion 1, GetProvider ''local:'' ex_res, SetCache 7, Execute 7 ex_res True,
           JsonEncode [], JsonEncode []],
          ex_project)"
    using C1_deploy_resource_run_as_root_is_dry_run
        [OF ex_get_resource, where E = ex_collab and b_arg = "Some True" and st_arg = "Some dry",
        unfolded Let_def, THEN conjunct2, THEN conjunct2, THEN conjunct2, THEN conjunct2,
        THEN conjunct2, THEN conjunct1, THEN spec, of 7]
    by (simp add: Let_def ex_collab_calls v)
  have c: "deploy_resource ex_collab ''testmodule::Resource'' None None [] ex_project
       = (Inr ex_res,
          [OpenVersion 1, GetProvider ''local:'' ex_res, SetCache 7, Execute 7 ex_res False,
           JsonEncode [], JsonEncode []],
          ex_project)"
    using C1_deploy_resource_run_as_root_is_dry_run
        [OF ex_get_resource, where E = ex_collab and b_arg = None and st_arg = None,
        unfolded Let_def, THEN conjunct2, THEN conjunct2, THEN conjunct2, THEN conjunct2,
        THEN conjunct2, THEN conjunct1, THEN spec, of 7]
    by (simp add: Let_def ex_collab_calls v status_default_def run_as_root_default_def)
  show ?thesis
    using ex_get_resource a b c by simp
qed

text \<open>
  Claim C5. When no resource matches, \<^verbatim>\<open>deploy_resource\<close> and
  \<^verbatim>\<open>dryrun_resource\<close> raise the assertion error, make no call to any collaborator
  (no handler is resolved or executed) and leave the project as it was.
\<close>

theorem C5_no_match_raises_before_deploying:
  assumes "get_resource rt fs p = None"
  shows "deploy_resource E rt st_arg b_arg fs p = (Inl no_resource_found, [], p)
       \<and> dryrun_resource E rt st_arg b_arg fs p = (Inl no_resource_found, [], p)"
  using assms by (simp add: deploy_resource_def dryrun_resource_def)

text \<open>The example project has no resource of type \<^verbatim>\<open>nfs::Export\<close>.\<close>

theorem C5_witness:
  "get_resource ''nfs::Export'' [] ex_project = None
   \<and> deploy_resource ex_collab ''nfs::Export'' None None [] ex_project
       = (Inl (AssertionError ''No resource found of given type and filter args''), [], ex_project)
   \<and> dryrun_resource ex_collab ''nfs::Export'' None None [] ex_project
       = (Inl (AssertionError ''No resource found of given type and filter args''), [], ex_project)"
  using C5_no_match_raises_before_deploying [OF ex_no_nfs, of ex_collab None None] ex_no_nfs
  by (simp add: no_resource_found_def)

text \<open>
  Claim C9. When a resource matches, \<^verbatim>\<open>deploy_resource\<close> returns nothing but the
  matched resource, and does so exactly when \<^verbatim>\<open>deploy\<close> returns a context whose
  status is the requested one and whose logs serialise; \<^verbatim>\<open>dryrun_resource\<close> returns
  the change-set of the context exactly when \<^verbatim>\<open>dryrun\<close> returns a context whose
  status is \<^verbatim>\<open>dry\<close>, and raises otherwise, whatever its \<^verbatim>\<open>status\<close> parameter
  (default \<^verbatim>\<open>deployed\<close>) is.
\<close>

theorem C9_results_of_deploy_resource_and_dryrun_resource:
  assumes "get_resource rt fs p = Some res"
  shows "let st = (case st_arg of None \<Rightarrow> status_default | Some s \<Rightarrow> s);
             b = (case b_arg of None \<Rightarrow> run_as_root_default | Some b \<Rightarrow> b)
         in (\<forall>r. fst (deploy_resource E rt st_arg b_arg fs p) = Inr r \<longrightarrow> r = res)
          \<and> (\<forall>ctx evs p'. deploy E res (Some b) None p = (Inr ctx, evs, p') \<longrightarrow>
                fst (deploy_resource E rt st_arg b_arg fs p)
                  = (if status ctx \<noteq> Some st then Inl (AssertionError [])
                     else case json_encode E (logs ctx) of Some e \<Rightarrow> Inl e | None \<Rightarrow> Inr res))
          \<and> (\<forall>e evs p'. deploy E res (Some b) None p = (Inl e, evs, p') \<longrightarrow>
                fst (deploy_resource E rt st_arg b_arg fs p) = Inl e)
          \<and> (\<forall>ctx evs p'. dryrun E res (Some b) p = (Inr ctx, evs, p') \<longrightarrow>
                fst (dryrun_resource E rt st_arg b_arg fs p)
                  = (if status ctx = Some dry then Inr (changes ctx) else Inl (AssertionError [])))
          \<and> (\<forall>e evs p'. dryrun E res (Some b) p = (Inl e, evs, p') \<longrightarrow>
                fst (dryrun_resource E rt st_arg b_arg fs p) = Inl e)
          \<and> (\<forall>st_arg'. dryrun_resource E rt st_arg' b_arg fs p = dryrun_resource E rt st_arg b_arg fs p)
          \<and> status_default = deployed"
  using assms
  by (auto simp: deploy_resource_def dryrun_resource_def Let_def finalize_context_def
      status_default_def split: prod.splits sum.splits option.splits if_splits)

text \<open>
  On the example project \<^verbatim>\<open>deploy_resource\<close> returns the resource, and
  \<^verbatim>\<open>dryrun_resource\<close> the empty change-set, also when asked for \<^verbatim>\<open>failed\<close>.
\<close>

theorem C9_witness:
  "get_resource ''testmodule::Resource'' [] ex_project = Some ex_res
   \<and> fst (deploy_resource ex_collab ''testmodule::Resource'' None None [] ex_project) = Inr ex_res
   \<and> fst (dryrun_resource ex_collab ''testmodule::Resource'' None None [] ex_project) = Inr []
   \<and> fst (dryrun_resource ex_collab ''testmodule::Resource'' (Some failed) None [] ex_project) = Inr []"
proof -
  have enc: "json_encode ex_collab [] = None"
    by (simp add: ex_collab_def)
  show ?thesis
    using C9_results_of_deploy_resource_and_dryrun_resource
        [OF ex_get_resource, of None None ex_collab]
      C9_results_of_deploy_resource_and_dryrun_resource
        [OF ex_get_resource, of "Some failed" None ex_collab]
      ex_get_resource ex_deploy ex_dryrun enc
    by (simp add: Let_def run_as_root_default_def status_default_def)
qed

text \<open>
  Claim C10. \<^verbatim>\<open>dryrun(r, b)\<close> is \<^verbatim>\<open>deploy(r, True, b)\<close>: the same outcome, the
  same collaborator calls and the same project afterwards, also when \<^verbatim>\<open>run_as_root\<close>
  is left out.
\<close>

theorem C10_dryrun_is_deploy_with_dry_run:
  "dryrun E r (Some b) p = deploy E r (Some True) (Some b) p
   \<and> dryrun E r None p = deploy E r (Some True) None p"
  by (simp add: dryrun_def deploy_def run_as_root_default_def)

text \<open>A dry run of the example resource ends in the state \<^verbatim>\<open>dry\<close>.\<close>

theorem C10_witness:
  "dryrun ex_collab ex_res (Some True) ex_project = deploy ex_collab ex_res (Some True) (Some True) ex_project
   \<and> fst (dryrun ex_collab ex_res None ex_project)
       = Inr \<lparr>ctx_resource = ex_res, status = Some dry, logs = [], changes = []\<rparr>"
  using C10_dryrun_is_deploy_with_dry_run [of ex_collab ex_res True ex_project]
  by (simp add: deploy_def get_handler_def get_handler_try_def except_reraise_def ex_collab_def
      finalize_context_def new_context_def run_as_root_default_def)

section \<open>Resetting the project\<close>

text \<open>
  Claim C3. After \<^verbatim>\<open>init\<close>, whatever compile, \<^verbatim>\<open>add_fact\<close> and
  \<^verbatim>\<open>add_blob\<close> calls came before it, \<^verbatim>\<open>types\<close> and \<^verbatim>\<open>version\<close> are
  \<^verbatim>\<open>None\<close>, and the resources, the blob store and the fact store are empty.
\<close>

theorem C3_init_resets_state:
  "let p' = snd (init E cs (run_ops E ops p))
   in types p' = None \<and> version p' = None \<and> resources p' = []
      \<and> blobs p' = Map.empty \<and> facts p' = Map.empty"
  by (simp add: init_def)

text \<open>The reset after a blob, a fact and a compilation on the example project.\<close>

theorem C3_witness:
  "let p' = snd (init ex_collab 1
        (run_ops ex_collab [AddBlob ''k2'' ''c'' None, AddFact ''r'' ''n'' (VInt 1), Compile ''main''] ex_project))
   in types p' = None \<and> version p' = None \<and> resources p' = []
      \<and> blobs p' = Map.empty \<and> facts p' = Map.empty"
  using C3_init_resets_state [of ex_collab 1
        "[AddBlob ''k2'' ''c'' None, AddFact ''r'' ''n'' (VInt 1), Compile ''main'']" ex_project]
  by simp

section \<open>Finding a resource\<close>

text \<open>
  Claim C4. \<^verbatim>\<open>get_resource\<close> returns the first resource, in the iteration order of
  the resources mapping, that is of the given type and on which every filter attribute
  exists and equals the filter value; it returns \<^verbatim>\<open>None\<close> exactly when no resource
  matches; a resource lacking a filter attribute is never returned.
\<close>

theorem C4_get_resource_first_match:
  "let rs = map snd (resources p)
   in get_resource rt fs p = find (matches_spec rt fs) rs
    \<and> (get_resource rt fs p = None \<longleftrightarrow> (\<forall>r \<in> set rs. \<not> matches_spec rt fs r))
    \<and> (\<forall>r. get_resource rt fs p = Some r \<longleftrightarrow>
          (\<exists>i < length rs. rs ! i = r \<and> matches_spec rt fs r \<and> (\<forall>j < i. \<not> matches_spec rt fs (rs ! j))))
    \<and> (\<forall>r arg val. (arg, val) \<in> set fs \<and> attrs r arg = None \<longrightarrow> get_resource rt fs p \<noteq> Some r)"
proof -
  have lacking: "\<not> matches_spec rt fs r" if "(arg, val) \<in> set fs" and "attrs r arg = None" for r arg val
    using that by (fastforce simp: matches_spec_def list_all_iff)
  show ?thesis
    unfolding Let_def get_resource_def get_resource_loop_find
    using lacking by (auto simp: find_None_iff find_Some_iff)
qed

text \<open>
  On the example project: a filter that selects the second resource, a filter on an
  attribute the resource of that type lacks, and a filter that selects the first.
\<close>

theorem C4_witness:
  "get_resource ''testmodule::Resource'' [(''name'', VStr ''IT'')] ex_project = Some ex_res
   \<and> get_resource ''testmodule::Resource'' [(''path'', VStr ''/tmp/x'')] ex_project = None
   \<and> get_resource ''std::File'' [(''agent'', VStr ''a'')] ex_project = Some ex_other"
proof -
  have a: "find (matches_spec ''testmodule::Resource'' [(''name'', VStr ''IT'')]) (map snd (resources ex_project)) = Some ex_res"
    by (simp add: matches_spec_def ex_project_def ex_res_def ex_other_def)
  have b: "find (matches_spec ''testmodule::Resource'' [(''path'', VStr ''/tmp/x'')]) (map snd (resources ex_project)) = None"
    by (simp add: matches_spec_def ex_project_def ex_res_def ex_other_def)
  have c: "find (matches_spec ''std::File'' [(''agent'', VStr ''a'')]) (map snd (resources ex_project)) = Some ex_other"
    by (simp add: matches_spec_def ex_project_def ex_res_def ex_other_def)
  show ?thesis
    using C4_get_resource_first_match [of ex_project "''testmodule::Resource''" "[(''name'', VStr ''IT'')]"]
      C4_get_resource_first_match [of ex_project "''testmodule::Resource''" "[(''path'', VStr ''/tmp/x'')]"]
      C4_get_resource_first_match [of ex_project "''std::File''" "[(''agent'', VStr ''a'')]"]
      a b c
    by (simp add: Let_def)
qed

section \<open>Storing blobs\<close>

text \<open>
  Claim C6, amended. On a key already in the blob store, \<^verbatim>\<open>add_blob\<close> raises, and
  leaves the project unchanged, exactly when the caller passes
  \<^verbatim>\<open>allow_overwrite=False\<close>; when the argument is \<^verbatim>\<open>True\<close> or left out (its
  default is \<^verbatim>\<open>True\<close>) the payload is replaced. On an absent key the content is
  stored under the key.
\<close>

theorem C6_add_blob_overwrites_unless_forbidden:
  "(key \<in> dom (blobs p) \<and> allow = Some False \<longrightarrow>
      add_blob key content allow p = (Some (key_already_stored key), p))
   \<and> (key \<in> dom (blobs p) \<and> allow \<noteq> Some False \<longrightarrow>
      add_blob key content allow p = (None, p\<lparr>blobs := (blobs p)(key \<mapsto> content)\<rparr>))
   \<and> (key \<notin> dom (blobs p) \<longrightarrow>
      add_blob key content allow p = (None, p\<lparr>blobs := (blobs p)(key \<mapsto> content)\<rparr>))"
  by (cases allow) (auto simp: add_blob_def allow_overwrite_default_def)

text \<open>
  Claim C6 as stated fails: the call \<^verbatim>\<open>add_blob(key, content)\<close>, which passes no
  permission, on a key that is stored raises nothing and replaces the payload.
\<close>

theorem C6_default_call_overwrites:
  "blobs ex_project ''k'' = Some ''old''
   \<and> fst (add_blob ''k'' ''new'' None ex_project) = None
   \<and> blobs (snd (add_blob ''k'' ''new'' None ex_project)) ''k'' = Some ''new''"
  by (simp add: add_blob_def allow_overwrite_default_def ex_project_def)

text \<open>The four cases on the example project, where \<^verbatim>\<open>k\<close> is stored and \<^verbatim>\<open>k2\<close> is not.\<close>

theorem C6_witness:
  "''k'' \<in> dom (blobs ex_project) \<and> ''k2'' \<notin> dom (blobs ex_project)
   \<and> add_blob ''k'' ''new'' (Some False) ex_project
       = (Some (Exception ''Key k already stored in blobs''), ex_project)
   \<and> blobs (snd (add_blob ''k'' ''new'' (Some False) ex_project)) ''k'' = Some ''old''
   \<and> blobs (snd (add_blob ''k'' ''new'' (Some True) ex_project)) ''k'' = Some ''new''
   \<and> blobs (snd (add_blob ''k'' ''new'' None ex_project)) ''k'' = Some ''new''
   \<and> blobs (snd (add_blob ''k2'' ''new'' (Some False) ex_project)) ''k2'' = Some ''new''"
proof -
  have k: "''k'' \<in> dom (blobs ex_project)" and k2: "''k2'' \<notin> dom (blobs ex_project)"
    and old: "blobs ex_project ''k'' = Some ''old''"
    by (simp_all add: ex_project_def)
  show ?thesis
    using C6_add_blob_overwrites_unless_forbidden [of "''k''" ex_project "Some False" "''new''"]
      C6_add_blob_overwrites_unless_forbidden [of "''k''" ex_project "Some True" "''new''"]
      C6_add_blob_overwrites_unless_forbidden [of "''k''" ex_project None "''new''"]
      C6_add_blob_overwrites_unless_forbidden [of "''k2''" ex_project "Some False" "''new''"]
      k k2 old
    by (simp add: key_already_stored_def)
qed

section \<open>Loading and looking up plugins\<close>

text \<open>
  Claim C2. The claim is that a missing plugin directory yields an empty registry and that
  \<^verbatim>\<open>get_plugin_function\<close> then fails with a descriptive error rather than a type
  error. On a module without a plugin directory the loader returns \<^verbatim>\<open>None\<close>, the
  project keeps it, and \<^verbatim>\<open>get_plugin_function\<close> raises the type error of
  \<^verbatim>\<open>in\<close> on \<^verbatim>\<open>None\<close>. A plugin directory without \<^verbatim>\<open>__init__.py\<close> does
  raise the descriptive exception.
\<close>

theorem C2_missing_plugin_dir_gives_None_and_TypeError:
  "load_plugins ex_no_plugin_dir = Inr None
   \<and> (case new_project ex_no_plugin_dir ex_collab ''/tmp/project'' of
        Inl e \<Rightarrow> False
      | Inr p \<Rightarrow> plugins p = None \<and> get_plugin_function ''f'' p = Inl not_iterable)
   \<and> load_plugins ex_no_init_py = Inl no_init_py"
  by (simp add: load_plugins_def new_project_def ex_no_plugin_dir_def ex_no_init_py_def
      ex_collab_def get_plugin_function_def get_module_info_def join_root_def path_join_def)

text \<open>
  Claim C7. For a registry built by the loader, \<^verbatim>\<open>get_plugin_function\<close> of a name
  that no plugin file defines as a top-level function raises the exception whose message
  names the function; of a name that two files define, the later of which is the last
  file to define it, it returns the definition of the later file.
\<close>

theorem C7_unknown_name_raises_and_later_file_wins:
  assumes "load_plugins F = Inr (Some reg)" and "plugins p = Some reg"
  shows "let files = plugin_files F; defs = functions_of F (mod_name_of F)
         in ((\<forall>f \<in> set files. defs f name = None) \<longrightarrow>
               get_plugin_function name p
                 = Inl (Exception (''Plugin function with name '' @ name @ '' not found'')))
          \<and> (\<forall>i j v. i < j \<and> j < length files \<and> defs (files ! i) name \<noteq> None
                 \<and> defs (files ! j) name = Some v
                 \<and> (\<forall>k. j < k \<and> k < length files \<longrightarrow> defs (files ! k) name = None)
               \<longrightarrow> get_plugin_function name p = Inr v)"
proof -
  note loaded = load_plugins_files [OF assms(1)]
  have missing: "(\<forall>f \<in> set (plugin_files F). functions_of F (mod_name_of F) f name = None) \<longrightarrow>
      get_plugin_function name p = Inl (Exception (''Plugin function with name '' @ name @ '' not found''))"
    using load_files_none [OF loaded, of name] assms(2)
    by (simp add: get_plugin_function_def plugin_not_found_def)
  have later: "get_plugin_function name p = Inr v"
    if "j < length (plugin_files F)"
      and "functions_of F (mod_name_of F) (plugin_files F ! j) name = Some v"
      and "\<forall>k. j < k \<and> k < length (plugin_files F) \<longrightarrow>
             functions_of F (mod_name_of F) (plugin_files F ! k) name = None" for j v
    using load_files_last [OF loaded that] assms(2) by (simp add: get_plugin_function_def)
  show ?thesis
    unfolding Let_def using missing later by blast
qed

text \<open>
  Two plugin files that both define \<^verbatim>\<open>f\<close>: the lookup returns the one of
  \<^verbatim>\<open>b.py\<close>, loaded last; \<^verbatim>\<open>h\<close> is defined nowhere.
\<close>

theorem C7_witness:
  "load_plugins ex_two_files = Inr (Some ex_registry)
   \<and> functions_of ex_two_files ''testmodule'' ''/src/testmodule/plugins/a.py'' ''f'' = Some (FunctionObj ''a.f'')
   \<and> functions_of ex_two_files ''testmodule'' ''/src/testmodule/plugins/b.py'' ''f'' = Some (FunctionObj ''b.f'')
   \<and> get_plugin_function ''f'' (ex_project\<lparr>plugins := Some ex_registry\<rparr>) = Inr (FunctionObj ''b.f'')
   \<and> get_plugin_function ''h'' (ex_project\<lparr>plugins := Some ex_registry\<rparr>)
       = Inl (Exception ''Plugin function with name h not found'')"
proof -
  have files: "plugin_files ex_two_files
      = [''/src/testmodule/plugins/__init__.py'', ''/src/testmodule/plugins/a.py'',
         ''/src/testmodule/plugins/b.py'']"
    by (simp add: plugin_files_def ex_two_files_def)
  have modname: "mod_name_of ex_two_files = ''testmodule''"
    by (simp add: mod_name_of_def ex_two_files_def get_module_info_def join_root_def
        path_join_def basename_def)
  have initpy: "functions_of ex_two_files ''testmodule'' ''/src/testmodule/plugins/__init__.py'' = Map.empty"
    by (simp add: functions_of_def ex_two_files_def basename_def before_first_dot_def)
  have a: "functions_of ex_two_files ''testmodule'' ''/src/testmodule/plugins/a.py''
      = [''f'' \<mapsto> FunctionObj ''a.f'']"
    by (simp add: functions_of_def ex_two_files_def basename_def before_first_dot_def is_function_def)
  have b: "functions_of ex_two_files ''testmodule'' ''/src/testmodule/plugins/b.py''
      = [''f'' \<mapsto> FunctionObj ''b.f'', ''g'' \<mapsto> FunctionObj ''b.g'']"
    by (simp add: functions_of_def ex_two_files_def basename_def before_first_dot_def is_function_def)
  have plug: "plugins (ex_project\<lparr>plugins := Some ex_registry\<rparr>) = Some ex_registry"
    by simp
  note claim = C7_unknown_name_raises_and_later_file_wins [OF ex_two_files_loaded plug]
  have f: "get_plugin_function ''f'' (ex_project\<lparr>plugins := Some ex_registry\<rparr>) = Inr (FunctionObj ''b.f'')"
  proof -
    have nolater: "\<forall>k. 2 < k \<and> k < length (plugin_files ex_two_files) \<longrightarrow>
        functions_of ex_two_files (mod_name_of ex_two_files) (plugin_files ex_two_files ! k) ''f'' = None"
      by (auto simp: files)
    have pre: "(1::nat) < 2 \<and> 2 < length (plugin_files ex_two_files)
        \<and> functions_of ex_two_files (mod_name_of ex_two_files) (plugin_files ex_two_files ! 1) ''f'' \<noteq> None
        \<and> functions_of ex_two_files (mod_name_of ex_two_files) (plugin_files ex_two_files ! 2) ''f''
            = Some (FunctionObj ''b.f'')
        \<and> (\<forall>k. 2 < k \<and> k < length (plugin_files ex_two_files) \<longrightarrow>
        functions_of ex_two_files (mod_name_of ex_two_files) (plugin_files ex_two_files ! k) ''f'' = None)"
      using nolater by (simp add: files modname a b)
    show ?thesis
      using claim [of "''f''", unfolded Let_def, THEN conjunct2, rule_format, OF pre] .
  qed
  have h: "get_plugin_function ''h'' (ex_project\<lparr>plugins := Some ex_registry\<rparr>)
       = Inl (Exception ''Plugin function with name h not found'')"
    using claim [of "''h''", unfolded Let_def, THEN conjunct1]
    by (simp add: files modname initpy a b)
  show ?thesis
    using ex_two_files_loaded f h by (simp add: a b)
qed

section \<open>The cache version\<close>

text \<open>
  Claim C8. \<^verbatim>\<open>get_handler\<close> never calls \<^verbatim>\<open>close_version\<close> and never falls off
  its end: once the version is opened, it returns the provider when resolving and
  configuring it succeed, and raises the collaborator's exception when one of them
  fails.
\<close>

theorem C8_get_handler_never_closes_version:
  "(\<forall>v. CloseVersion v \<notin> set (snd (get_handler E r b)))
   \<and> fst (get_handler E r b) \<noteq> Inr None
   \<and> (open_version E (id_version r) = None \<longrightarrow>
        OpenVersion (id_version r) \<in> set (snd (get_handler E r b))
        \<and> (\<forall>h. get_provider E (mock_agent_uri b) r = Inr h \<and> set_cache E h = None
               \<longrightarrow> fst (get_handler E r b) = Inr (Some h))
        \<and> (\<forall>e. get_provider E (mock_agent_uri b) r = Inl e \<longrightarrow> fst (get_handler E r b) = Inl e)
        \<and> (\<forall>h e. get_provider E (mock_agent_uri b) r = Inr h \<and> set_cache E h = Some e
               \<longrightarrow> fst (get_handler E r b) = Inl e))"
  by (auto simp: get_handler_def get_handler_try_def except_reraise_def Let_def
      split: option.splits sum.splits)

text \<open>A successful resolution, and one whose \<^verbatim>\<open>set_cache\<close> raises.\<close>

theorem C8_witness:
  "open_version ex_collab (id_version ex_res) = None
   \<and> OpenVersion 1 \<in> set (snd (get_handler ex_collab ex_res False))
   \<and> CloseVersion 1 \<notin> set (snd (get_handler ex_collab ex_res False))
   \<and> fst (get_handler ex_collab ex_res False) = Inr (Some 7)
   \<and> fst (get_handler (ex_collab\<lparr>set_cache := (\<lambda>h. Some (Collaborator ''boom''))\<rparr>) ex_res True)
       = Inl (Collaborator ''boom'')
   \<and> CloseVersion 1
       \<notin> set (snd (get_handler (ex_collab\<lparr>set_cache := (\<lambda>h. Some (Collaborator ''boom''))\<rparr>) ex_res True))"
  using C8_get_handler_never_closes_version [of ex_collab ex_res False]
    C8_get_handler_never_closes_version
      [of "ex_collab\<lparr>set_cache := (\<lambda>h. Some (Collaborator ''boom''))\<rparr>" ex_res True]
  by (simp add: ex_collab_def ex_res_def)

end
